theory Spec2Isabelle
  imports Main
begin

section \<open>ZeroStack2D: the stack\<close>

text \<open>
  The class \<open>Stack\<close> of \<^verbatim>\<open>ZeroStack2D.py\<close> is a singly linked list of \<open>Element\<close>
  nodes whose head is the top of the stack. No node is ever shared between two stacks,
  so the chain of nodes is the list of the values it holds, top first, and \<open>head is None\<close>
  is the empty list. The values are Python integers, hence unbounded.
\<close>

type_synonym stack = "int list"

definition Stack_init :: stack where
  "Stack_init = []"

text \<open>\<open>__bool__\<close>: true iff the stack is not empty.\<close>

definition nonempty :: "stack \<Rightarrow> bool" where
  "nonempty s = (s \<noteq> [])"

definition push :: "int \<Rightarrow> stack \<Rightarrow> stack" where
  "push v s = v # s"

text \<open>\<open>pop\<close> returns the value and the stack it leaves behind.\<close>

definition pop :: "stack \<Rightarrow> int \<times> stack" where
  "pop s = (if \<not> nonempty s then (0, s) else (hd s, tl s))"

definition swap :: "stack \<Rightarrow> stack" where
  "swap s =
     (let s1 = (if \<not> nonempty s then push 0 s else s);
          (a, s2) = pop s1;
          (b, s3) = (if nonempty s2 then pop s2 else (0, s2))
      in push b (push a s3))"

definition add :: "int \<Rightarrow> stack \<Rightarrow> stack" where
  "add b s = (let (a, s1) = pop s in push (b + a) s1)"

text \<open>Sequences of stack operations, as a client of the class may issue them.\<close>

datatype stack_op = Push int | Pop

fun apply_ops :: "stack_op list \<Rightarrow> stack \<Rightarrow> stack" where
  "apply_ops [] s = s"
| "apply_ops (Push v # ops) s = apply_ops ops (push v s)"
| "apply_ops (Pop # ops) s = apply_ops ops (snd (pop s))"

section \<open>ZeroStack2D: the program grid and the instruction fetch\<close>

text \<open>
  A Python character is a Unicode code point; a line of the program file or of standard
  input is the list of its code points. \<open>ch\<close> gives the code point of an ASCII character.
\<close>

type_synonym pychar = nat

type_synonym grid = "pychar list list"

abbreviation ch :: "char \<Rightarrow> pychar" where
  "ch c \<equiv> of_char c"

text \<open>
  Indexing of a Python list by an integer, \<open>xs[i]\<close>: an index from \<open>-len(xs)\<close> up to
  \<open>-1\<close> counts from the end of the list, and an index outside \<open>-len(xs) .. len(xs) - 1\<close>
  raises \<open>IndexError\<close>, which is the result \<open>None\<close> here.
\<close>

definition py_index :: "'a list \<Rightarrow> int \<Rightarrow> 'a option" where
  "py_index xs i =
     (if 0 \<le> i \<and> i < int (length xs) then Some (xs ! nat i)
      else if - int (length xs) \<le> i \<and> i < 0 then Some (xs ! nat (int (length xs) + i))
      else None)"

text \<open>
  The fetch of the main loop: \<open>try: cmd = program[y][x]\<close>, and
  \<open>except IndexError: cmd = " "\<close>.
\<close>

definition fetch :: "grid \<Rightarrow> int \<Rightarrow> int \<Rightarrow> pychar" where
  "fetch program x y =
     (case py_index program y of
        None \<Rightarrow> ch CHR '' ''
      | Some row \<Rightarrow>
          (case py_index row x of
             None \<Rightarrow> ch CHR '' ''
           | Some c \<Rightarrow> c))"

section \<open>ZeroStack2D: the interpreter state\<close>

text \<open>The direction \<open>d\<close> of the instruction pointer: 0, 1, 2 and 3 in the source.\<close>

datatype direction = RIGHT | UP | LEFT | DOWN

text \<open>
  What the program has written to standard output: \<open>print(v)\<close> writes the decimal
  numeral of \<open>v\<close> and a newline, \<open>print(chr(v), end='')\<close> writes one character.
  The output is kept as the text handed to the stream; how the stream encodes it is not
  part of the model.
\<close>

datatype written = Number int | Character pychar

text \<open>
  The globals \<open>x\<close>, \<open>y\<close>, \<open>d\<close> and \<open>stack\<close> of the main loop, with the lines of
  standard input not yet read (each without its newline, as \<open>input()\<close> returns them)
  and the output written so far.
\<close>

record state =
  ip_x :: int
  ip_y :: int
  ip_d :: direction
  stk :: stack
  stdin :: "pychar list list"
  stdout :: "written list"

definition initial :: "pychar list list \<Rightarrow> state" where
  "initial inp =
     \<lparr>ip_x = 0, ip_y = 0, ip_d = RIGHT, stk = Stack_init, stdin = inp, stdout = []\<rparr>"

text \<open>The exceptions that the main loop can raise; none of them is caught.\<close>

datatype error = TypeError | ValueError | EOFError

text \<open>
  One pass of the loop body either falls through to the next pass, or leaves the process
  through \<open>sys.exit\<close> with a status, or raises an exception that nothing catches. The
  state is the one at that moment.
\<close>

datatype outcome = Next state | Exit int state | Uncaught error state

section \<open>ZeroStack2D: the built-in functions of the host\<close>

text \<open>\<open>input()\<close>: the next line of standard input, \<open>EOFError\<close> when there is none.\<close>

definition input :: "state \<Rightarrow> error + (pychar list \<times> state)" where
  "input s =
     (case stdin s of
        [] \<Rightarrow> Inl EOFError
      | line # lines \<Rightarrow> Inr (line, s\<lparr>stdin := lines\<rparr>))"

text \<open>
  \<open>ord(s)\<close>: the code point of a string of length one, \<open>TypeError\<close> for a string of any
  other length.
\<close>

definition ord :: "pychar list \<Rightarrow> error + int" where
  "ord line = (case line of [c] \<Rightarrow> Inr (int c) | _ \<Rightarrow> Inl TypeError)"

text \<open>
  \<open>chr(v)\<close>: the character of code point \<open>v\<close> for \<open>v\<close> in \<open>range(0x110000)\<close>, an
  exception otherwise (\<open>ValueError\<close>; CPython reports a value that does not fit a C
  integer as \<open>OverflowError\<close>, which is uncaught just the same).
\<close>

definition chr :: "int \<Rightarrow> error + pychar" where
  "chr v = (if 0 \<le> v \<and> v \<le> 0x10FFFF then Inr (nat v) else Inl ValueError)"

text \<open>
  \<open>print(v)\<close> of an integer \<open>v\<close> converts it with \<open>str\<close>, which raises \<open>ValueError\<close>
  when \<open>v\<close> has more decimal digits than the limit of the host on such conversions,
  4300 digits by default (\<open>sys.int_info.default_max_str_digits\<close>, CPython 3.11).
\<close>

definition int_max_str_digits :: nat where
  "int_max_str_digits = 4300"

definition str :: "int \<Rightarrow> error + written" where
  "str v = (if 10 ^ int_max_str_digits \<le> \<bar>v\<bar> then Inl ValueError else Inr (Number v))"

text \<open>
  \<open>int(s)\<close> on a string is the host's parser of integer literals. It is a parameter
  \<open>parse_int\<close> of the interpreter: \<open>None\<close> stands for the \<open>ValueError\<close> that \<open>int\<close>
  raises on a string that is not an integer literal.
\<close>

type_synonym int_parser = "pychar list \<Rightarrow> int option"

text \<open>
  To run the interpreter on concrete input lines, \<open>ascii_int\<close> is the parser of the plain
  decimal literals: one or more ASCII digits after an optional sign. \<open>int\<close> reads these
  as \<open>ascii_int\<close> does; it accepts more (blanks around the literal, underscores between
  digits, the other decimal digits of Unicode).
\<close>

fun decimal :: "nat \<Rightarrow> pychar list \<Rightarrow> nat option" where
  "decimal acc [] = Some acc"
| "decimal acc (c # cs) =
     (if ch CHR ''0'' \<le> c \<and> c \<le> ch CHR ''9''
      then decimal (10 * acc + (c - ch CHR ''0'')) cs
      else None)"

definition unsigned :: "pychar list \<Rightarrow> int option" where
  "unsigned cs = (if cs = [] then None else map_option int (decimal 0 cs))"

definition ascii_int :: int_parser where
  "ascii_int line =
     (case line of
        [] \<Rightarrow> None
      | c # cs \<Rightarrow>
          if c = ch CHR ''-'' then map_option uminus (unsigned cs)
          else if c = ch CHR ''+'' then unsigned cs
          else unsigned line)"

section \<open>ZeroStack2D: the main loop\<close>

text \<open>
  The \<open>if\<close>/\<open>elif\<close> chain of the loop body, in the order of the source. A test
  \<open>cmd in "!0"\<close> on the one-character string \<open>cmd\<close> holds iff \<open>cmd\<close> is one of the two
  characters. An integer is true in a condition iff it is not 0.
\<close>

definition execute :: "int_parser \<Rightarrow> pychar \<Rightarrow> state \<Rightarrow> outcome" where
  "execute parse_int cmd s =
     (if cmd = ch CHR ''>'' then Next (s\<lparr>ip_d := RIGHT\<rparr>)
      else if cmd = ch CHR ''<'' then Next (s\<lparr>ip_d := LEFT\<rparr>)
      else if cmd = ch CHR ''^'' then Next (s\<lparr>ip_d := UP\<rparr>)
      else if cmd = ch CHR ''v'' then Next (s\<lparr>ip_d := DOWN\<rparr>)
      else if cmd = ch CHR ''!'' \<or> cmd = ch CHR ''0'' then Next (s\<lparr>stk := push 0 (stk s)\<rparr>)
      else if cmd = ch CHR ''+'' then Next (s\<lparr>stk := add 1 (stk s)\<rparr>)
      else if cmd = ch CHR ''-'' then Next (s\<lparr>stk := add (- 1) (stk s)\<rparr>)
      else if cmd = ch CHR '':'' then
        (let (k, s1) = pop (stk s) in Next (s\<lparr>stk := push k (push k s1)\<rparr>))
      else if cmd = ch CHR 0x5C \<or> cmd = ch CHR ''/'' then Next (s\<lparr>stk := swap (stk s)\<rparr>)
      else if cmd = ch CHR ''?'' then
        (case input s of
           Inl e \<Rightarrow> Uncaught e s
         | Inr (line, s1) \<Rightarrow>
             (case ord line of
                Inl e \<Rightarrow> Uncaught e s1
              | Inr v \<Rightarrow> Next (s1\<lparr>stk := push v (stk s1)\<rparr>)))
      else if cmd = ch CHR ''~'' then
        (case input s of
           Inl e \<Rightarrow> Uncaught e s
         | Inr (line, s1) \<Rightarrow>
             (case parse_int line of
                None \<Rightarrow> Uncaught ValueError s1
              | Some v \<Rightarrow> Next (s1\<lparr>stk := push v (stk s1)\<rparr>)))
      else if cmd = ch CHR ''$'' then Next (s\<lparr>stk := snd (pop (stk s))\<rparr>)
      else if cmd = ch CHR ''.'' then
        (let (v, s1) = pop (stk s) in
           case str v of
             Inl e \<Rightarrow> Uncaught e (s\<lparr>stk := s1\<rparr>)
           | Inr w \<Rightarrow> Next (s\<lparr>stk := s1, stdout := stdout s @ [w]\<rparr>))
      else if cmd = ch CHR '','' then
        (let (v, s1) = pop (stk s) in
           case chr v of
             Inl e \<Rightarrow> Uncaught e (s\<lparr>stk := s1\<rparr>)
           | Inr c \<Rightarrow> Next (s\<lparr>stk := s1, stdout := stdout s @ [Character c]\<rparr>))
      else if cmd = ch CHR ''|'' then
        (if nonempty (stk s) then
           (let (a, s1) = pop (stk s) in
              Next (s\<lparr>ip_d := (if a \<noteq> 0 then UP else DOWN), stk := push a s1\<rparr>))
         else Next (s\<lparr>ip_d := DOWN\<rparr>))
      else if cmd = ch CHR ''_'' then
        (if nonempty (stk s) then
           (let (a0, s1) = pop (stk s); (a, s2) = pop s1 in
              Next (s\<lparr>ip_d := (if a \<noteq> 0 then RIGHT else LEFT), stk := push a s2\<rparr>))
         else Next (s\<lparr>ip_d := LEFT\<rparr>))
      else if cmd = ch CHR ''@'' then Exit 0 s
      else Next s)"

text \<open>The movement of the instruction pointer that ends the loop body.\<close>

definition move :: "state \<Rightarrow> state" where
  "move s =
     (case ip_d s of
        RIGHT \<Rightarrow> s\<lparr>ip_x := ip_x s + 1\<rparr>
      | UP \<Rightarrow> s\<lparr>ip_y := ip_y s - 1\<rparr>
      | LEFT \<Rightarrow> s\<lparr>ip_x := ip_x s - 1\<rparr>
      | DOWN \<Rightarrow> s\<lparr>ip_y := ip_y s + 1\<rparr>)"

text \<open>One pass of \<open>while True\<close>: fetch, dispatch, move.\<close>

definition step :: "int_parser \<Rightarrow> grid \<Rightarrow> state \<Rightarrow> outcome" where
  "step parse_int program s =
     (case execute parse_int (fetch program (ip_x s) (ip_y s)) s of
        Next s' \<Rightarrow> Next (move s')
      | Exit n s' \<Rightarrow> Exit n s'
      | Uncaught e s' \<Rightarrow> Uncaught e s')"

text \<open>
  The loop has no exit of its own, so it is run for a number of passes: \<open>Next s\<close> after
  \<open>n\<close> passes says that the loop is still running, in state \<open>s\<close>.
\<close>

fun run :: "int_parser \<Rightarrow> grid \<Rightarrow> nat \<Rightarrow> state \<Rightarrow> outcome" where
  "run parse_int program 0 s = Next s"
| "run parse_int program (Suc n) s =
     (case step parse_int program s of
        Next s' \<Rightarrow> run parse_int program n s'
      | Exit k s' \<Rightarrow> Exit k s'
      | Uncaught e s' \<Rightarrow> Uncaught e s')"

text \<open>
  The exit status of the process: the argument of \<open>sys.exit\<close>, and 1 when the
  interpreter of the host ends on an uncaught exception (after printing its traceback).
\<close>

definition exit_status :: "outcome \<Rightarrow> int option" where
  "exit_status r =
     (case r of Next s \<Rightarrow> None | Exit n s \<Rightarrow> Some n | Uncaught e s \<Rightarrow> Some 1)"

section \<open>ZeroStack2D: loading the program\<close>

text \<open>
  The start of the script, up to the main loop. What the process writes to standard
  error is kept as a list of items: the usage line and the error message of \<open>argparse\<close>,
  and the traceback of an uncaught exception.
\<close>

datatype diagnostic = Usage | Message | Traceback

datatype raised = IndexError | SystemExit int | OSError

datatype startup = Loaded grid | Terminated int "diagnostic list"

text \<open>
  \<open>args.parse_args()\<close> for the parser of the script, whose only declared argument is the
  positional \<open>input_file\<close>, which is therefore required. The command line either has
  that argument or has none. Without it the parser calls its \<open>error\<close> method, which
  writes the usage line and a message to standard error and raises \<open>SystemExit(2)\<close>.
\<close>

definition parse_args :: "string option \<Rightarrow> diagnostic list \<times> (raised + string)" where
  "parse_args argv =
     (case argv of
        None \<Rightarrow> ([Usage, Message], Inl (SystemExit 2))
      | Some input_file \<Rightarrow> ([], Inr input_file))"

text \<open>
  The \<open>try\<close> statement of the script: \<open>open\<close> fails with an \<open>OSError\<close> on a path that
  cannot be read, \<open>readlines\<close> gives the lines with their newlines, and \<open>list(i)\<close> is the
  list of the characters of a line. The handler catches \<open>IndexError\<close> only, and calls
  \<open>sys.exit(0)\<close>; any other exception leaves the process with its own status.
\<close>

definition load :: "(string \<Rightarrow> pychar list list option) \<Rightarrow> string option \<Rightarrow> startup" where
  "load files argv =
     (let (err, parsed) = parse_args argv;
          body = (case parsed of
                    Inl e \<Rightarrow> Inl e
                  | Inr input_file \<Rightarrow>
                      (case files input_file of
                         None \<Rightarrow> Inl OSError
                       | Some pr \<Rightarrow> Inr (map (\<lambda>i. i) pr)))
      in case body of
           Inl IndexError \<Rightarrow> Terminated 0 err
         | Inl (SystemExit n) \<Rightarrow> Terminated n err
         | Inl OSError \<Rightarrow> Terminated 1 (err @ [Traceback])
         | Inr program \<Rightarrow> Loaded program)"

section \<open>Properties of the stack\<close>

text \<open>
  C1. Whatever sequence of pushes and pops has been run on a fresh stack, if the stack
  it leaves is empty then \<open>pop\<close> returns 0 and the stack is still empty, of size 0. \<open>pop\<close>
  is a total function: it has a result on every stack.
\<close>

theorem pop_empty_default:
  assumes "\<not> nonempty (apply_ops ops Stack_init)"
  shows "pop (apply_ops ops Stack_init) = (0, apply_ops ops Stack_init)
         \<and> snd (pop (apply_ops ops Stack_init)) = []
         \<and> length (snd (pop (apply_ops ops Stack_init))) = 0"
  using assms by (simp add: pop_def nonempty_def)

theorem pop_empty_default_witness:
  "\<not> nonempty (apply_ops [Push 5, Pop, Pop] Stack_init)
   \<and> pop (apply_ops [Push 5, Pop, Pop] Stack_init) = (0, [])"
  using pop_empty_default [of "[Push 5, Pop, Pop]"]
  by (simp add: pop_def push_def nonempty_def Stack_init_def)

text \<open>
  C6. \<open>swap\<close> is total. On the empty stack it leaves two zeros; on a stack holding the
  single value \<open>a\<close> it leaves 0 on top of \<open>a\<close>; on a stack of two or more values it
  exchanges the top two and keeps the size.
\<close>

theorem swap_cases:
  "swap [] = [0, 0]
   \<and> swap [a] = [0, a]
   \<and> swap (a # b # rest) = b # a # rest
   \<and> length (swap (a # b # rest)) = length (a # b # rest)"
  by (simp add: swap_def pop_def push_def nonempty_def)

section \<open>Properties of the instruction fetch\<close>

text \<open>
  C2. The claim is that a fetch at a negative coordinate always yields the blank. The
  code indexes the Python lists with the coordinate itself, so \<open>x = -1\<close> reads the last
  character of the row. For the one-row program \<^verbatim>\<open><@\<close> the fetch at \<open>(-1, 0)\<close> yields
  \<^verbatim>\<open>@\<close>, while the fetch at \<open>(2, 0)\<close>, past the end of the row, yields the blank; the
  program, which would move left through blank cells for ever, halts on its second pass.
\<close>

theorem fetch_negative_reads_cell:
  "fetch [map ch ''<@''] (- 1) 0 = ch CHR ''@''
   \<and> fetch [map ch ''<@''] 2 0 = ch CHR '' ''
   \<and> run ascii_int [map ch ''<@''] 2 (initial []) =
       Exit 0 \<lparr>ip_x = - 1, ip_y = 0, ip_d = LEFT, stk = [], stdin = [], stdout = []\<rparr>"
  by (simp add: numeral_2_eq_2 step_def execute_def move_def fetch_def py_index_def
      initial_def Stack_init_def)

section \<open>Properties of the start of the script\<close>

text \<open>
  C3. The claim is a silent exit with status 0 when no program file is named. The
  handler of the script that calls \<open>sys.exit(0)\<close> catches \<open>IndexError\<close>, which
  \<open>parse_args\<close> never raises: without the argument the process ends with status 2,
  the usage line and the message on standard error.
\<close>

theorem no_argument_exits_2_with_usage:
  "load files None = Terminated 2 [Usage, Message]"
  by (simp add: load_def parse_args_def)

section \<open>Properties of the branch instructions\<close>

text \<open>
  C4. The horizontal branch \<^verbatim>\<open>_\<close>. On the empty stack the direction becomes LEFT and
  the stack stays empty. On a stack of one value \<open>t\<close> that value is dropped, the second
  pop gives 0, the direction becomes LEFT and the stack is left holding that 0. On a
  stack with top \<open>t\<close> above \<open>a\<close>, \<open>t\<close> is dropped for good, the direction becomes RIGHT
  if \<open>a\<close> is not 0 and LEFT otherwise, and \<open>a\<close> is pushed back.
\<close>

theorem horizontal_branch:
  "execute p (ch CHR ''_'') (s\<lparr>stk := []\<rparr>) = Next (s\<lparr>stk := [], ip_d := LEFT\<rparr>)
   \<and> execute p (ch CHR ''_'') (s\<lparr>stk := [t]\<rparr>) = Next (s\<lparr>stk := [0], ip_d := LEFT\<rparr>)
   \<and> execute p (ch CHR ''_'') (s\<lparr>stk := t # a # rest\<rparr>) =
       Next (s\<lparr>stk := a # rest, ip_d := (if a \<noteq> 0 then RIGHT else LEFT)\<rparr>)"
  by (simp add: execute_def pop_def push_def nonempty_def)

theorem horizontal_branch_witness:
  "execute ascii_int (ch CHR ''_'') ((initial [])\<lparr>stk := [7, 3]\<rparr>) =
     Next ((initial [])\<lparr>stk := [3], ip_d := RIGHT\<rparr>)
   \<and> execute ascii_int (ch CHR ''_'') ((initial [])\<lparr>stk := [0]\<rparr>) =
     Next ((initial [])\<lparr>stk := [0], ip_d := LEFT\<rparr>)"
  using horizontal_branch [where p = ascii_int and s = "initial []" and t = 7 and a = 3 and rest = "[]"]
    horizontal_branch [where p = ascii_int and s = "initial []" and t = 0]
  by simp

text \<open>
  C5. The vertical branch \<^verbatim>\<open>|\<close>. On the empty stack the direction becomes DOWN and the
  stack stays empty: nothing is pushed. On a stack with top \<open>a\<close> the direction becomes UP
  if \<open>a\<close> is not 0 and DOWN otherwise, and the stack is as it was, in contents and size.
\<close>

theorem vertical_branch:
  "execute p (ch CHR ''|'') (s\<lparr>stk := []\<rparr>) = Next (s\<lparr>stk := [], ip_d := DOWN\<rparr>)
   \<and> execute p (ch CHR ''|'') (s\<lparr>stk := a # rest\<rparr>) =
       Next (s\<lparr>stk := a # rest, ip_d := (if a \<noteq> 0 then UP else DOWN)\<rparr>)"
  by (simp add: execute_def pop_def push_def nonempty_def)

theorem vertical_branch_witness:
  "execute ascii_int (ch CHR ''|'') ((initial [])\<lparr>stk := [5]\<rparr>) =
     Next ((initial [])\<lparr>stk := [5], ip_d := UP\<rparr>)"
  using vertical_branch [where p = ascii_int and s = "initial []" and a = 5 and rest = "[]"]
  by simp

section \<open>Properties of the movement\<close>

lemma execute_position:
  "execute p cmd s = Next s' \<Longrightarrow> ip_x s' = ip_x s \<and> ip_y s' = ip_y s"
  by (auto simp: execute_def input_def Let_def
      split: if_splits sum.splits prod.splits list.splits option.splits)

lemma execute_Exit:
  "execute p cmd s = Exit n s' \<Longrightarrow> cmd = ch CHR ''@''"
  by (auto simp: execute_def Let_def split: if_splits sum.splits prod.splits option.splits)

lemma execute_Uncaught:
  "execute p cmd s = Uncaught e s' \<Longrightarrow>
   cmd = ch CHR ''?'' \<or> cmd = ch CHR ''~'' \<or> cmd = ch CHR ''.'' \<or> cmd = ch CHR '',''"
  by (auto simp: execute_def Let_def split: if_splits sum.splits prod.splits option.splits)

lemma execute_direction:
  "execute p cmd s = Next s' \<Longrightarrow>
   ip_d s' =
     (if cmd = ch CHR ''>'' then RIGHT
      else if cmd = ch CHR ''<'' then LEFT
      else if cmd = ch CHR ''^'' then UP
      else if cmd = ch CHR ''v'' then DOWN
      else if cmd = ch CHR ''|'' then
        (case stk s of [] \<Rightarrow> DOWN | a # rest \<Rightarrow> if a \<noteq> 0 then UP else DOWN)
      else if cmd = ch CHR ''_'' then
        (case stk s of t # a # rest \<Rightarrow> if a \<noteq> 0 then RIGHT else LEFT | _ \<Rightarrow> LEFT)
      else ip_d s)"
  by (auto simp: execute_def input_def pop_def nonempty_def Let_def
      split: if_splits sum.splits prod.splits list.splits option.splits)

lemma execute_no_instruction:
  "cmd \<notin> set (map ch ''><^v!0+-:/?~$.,|_@'') \<Longrightarrow> cmd \<noteq> ch CHR 0x5C \<Longrightarrow>
   execute p cmd s = Next s"
  by (simp add: execute_def)

lemma move_position:
  "(ip_x (move s), ip_y (move s)) =
     (case ip_d s of
        RIGHT \<Rightarrow> (ip_x s + 1, ip_y s)
      | UP \<Rightarrow> (ip_x s, ip_y s - 1)
      | LEFT \<Rightarrow> (ip_x s - 1, ip_y s)
      | DOWN \<Rightarrow> (ip_x s, ip_y s + 1))"
  by (simp add: move_def split: direction.splits)

lemma move_direction: "ip_d (move s) = ip_d s"
  by (simp add: move_def split: direction.splits)

text \<open>
  C7. Let \<open>cmd\<close> be the character under the instruction pointer. A pass of the loop
  that falls through its dispatch ends by moving the pointer by exactly one cell in the
  direction that holds after the dispatch. That direction is the one just set by \<^verbatim>\<open>>\<close>,
  \<^verbatim>\<open><\<close>, \<^verbatim>\<open>^\<close> or \<^verbatim>\<open>v\<close>, the one chosen by a branch \<^verbatim>\<open>|\<close> or \<^verbatim>\<open>_\<close> from the stack,
  and the direction \<open>ip_d s\<close> of before the pass for every other character. The passes
  that do not fall through are the halt \<^verbatim>\<open>@\<close>, which ends the process inside the
  dispatch, and an input or output instruction \<^verbatim>\<open>?\<close>, \<^verbatim>\<open>~\<close>, \<^verbatim>\<open>.\<close> or \<^verbatim>\<open>,\<close> that raises.
  On a character that is no instruction, the blank of an off-grid fetch included, the
  pass is the movement alone.
\<close>

theorem step_advances_one_cell:
  assumes "fetch program (ip_x s) (ip_y s) = cmd"
  shows "(case step p program s of
            Next s' \<Rightarrow>
              ip_d s' =
                (if cmd = ch CHR ''>'' then RIGHT
                 else if cmd = ch CHR ''<'' then LEFT
                 else if cmd = ch CHR ''^'' then UP
                 else if cmd = ch CHR ''v'' then DOWN
                 else if cmd = ch CHR ''|'' then
                   (case stk s of [] \<Rightarrow> DOWN | a # rest \<Rightarrow> if a \<noteq> 0 then UP else DOWN)
                 else if cmd = ch CHR ''_'' then
                   (case stk s of
                      t # a # rest \<Rightarrow> if a \<noteq> 0 then RIGHT else LEFT
                    | _ \<Rightarrow> LEFT)
                 else ip_d s)
              \<and> (ip_x s', ip_y s') =
                  (case ip_d s' of
                     RIGHT \<Rightarrow> (ip_x s + 1, ip_y s)
                   | UP \<Rightarrow> (ip_x s, ip_y s - 1)
                   | LEFT \<Rightarrow> (ip_x s - 1, ip_y s)
                   | DOWN \<Rightarrow> (ip_x s, ip_y s + 1))
          | Exit n s' \<Rightarrow> cmd = ch CHR ''@''
          | Uncaught e s' \<Rightarrow>
              cmd = ch CHR ''?'' \<or> cmd = ch CHR ''~'' \<or> cmd = ch CHR ''.''
              \<or> cmd = ch CHR '','')
         \<and> (cmd \<notin> set (map ch ''><^v!0+-:/?~$.,|_@'') \<and> cmd \<noteq> ch CHR 0x5C \<longrightarrow>
              step p program s = Next (move s))"
proof (rule conjI)
  show "case step p program s of
          Next s' \<Rightarrow>
            ip_d s' =
              (if cmd = ch CHR ''>'' then RIGHT
               else if cmd = ch CHR ''<'' then LEFT
               else if cmd = ch CHR ''^'' then UP
               else if cmd = ch CHR ''v'' then DOWN
               else if cmd = ch CHR ''|'' then
                 (case stk s of [] \<Rightarrow> DOWN | a # rest \<Rightarrow> if a \<noteq> 0 then UP else DOWN)
               else if cmd = ch CHR ''_'' then
                 (case stk s of
                    t # a # rest \<Rightarrow> if a \<noteq> 0 then RIGHT else LEFT
                  | _ \<Rightarrow> LEFT)
               else ip_d s)
            \<and> (ip_x s', ip_y s') =
                (case ip_d s' of
                   RIGHT \<Rightarrow> (ip_x s + 1, ip_y s)
                 | UP \<Rightarrow> (ip_x s, ip_y s - 1)
                 | LEFT \<Rightarrow> (ip_x s - 1, ip_y s)
                 | DOWN \<Rightarrow> (ip_x s, ip_y s + 1))
        | Exit n s' \<Rightarrow> cmd = ch CHR ''@''
        | Uncaught e s' \<Rightarrow>
            cmd = ch CHR ''?'' \<or> cmd = ch CHR ''~'' \<or> cmd = ch CHR ''.''
            \<or> cmd = ch CHR '',''"
  proof (cases "execute p cmd s")
    case (Next t)
    then have st: "step p program s = Next (move t)"
      using assms by (simp add: step_def)
    from Next have pos: "ip_x t = ip_x s \<and> ip_y t = ip_y s"
      by (rule execute_position)
    have dir: "ip_d (move t) =
       (if cmd = ch CHR ''>'' then RIGHT
        else if cmd = ch CHR ''<'' then LEFT
        else if cmd = ch CHR ''^'' then UP
        else if cmd = ch CHR ''v'' then DOWN
        else if cmd = ch CHR ''|'' then
          (case stk s of [] \<Rightarrow> DOWN | a # rest \<Rightarrow> if a \<noteq> 0 then UP else DOWN)
        else if cmd = ch CHR ''_'' then
          (case stk s of t # a # rest \<Rightarrow> if a \<noteq> 0 then RIGHT else LEFT | _ \<Rightarrow> LEFT)
        else ip_d s)"
      unfolding move_direction using Next by (rule execute_direction)
    have cell: "(ip_x (move t), ip_y (move t)) =
       (case ip_d (move t) of
          RIGHT \<Rightarrow> (ip_x s + 1, ip_y s)
        | UP \<Rightarrow> (ip_x s, ip_y s - 1)
        | LEFT \<Rightarrow> (ip_x s - 1, ip_y s)
        | DOWN \<Rightarrow> (ip_x s, ip_y s + 1))"
      using pos by (cases "ip_d t") (simp_all add: move_position move_direction)
    show ?thesis
      by (simp only: st outcome.case) (rule conjI [OF dir cell])
  next
    case (Exit n t)
    then have "step p program s = Exit n t"
      using assms by (simp add: step_def)
    then show ?thesis
      using execute_Exit [OF Exit] by simp
  next
    case (Uncaught e t)
    then have "step p program s = Uncaught e t"
      using assms by (simp add: step_def)
    then show ?thesis
      using execute_Uncaught [OF Uncaught] by simp
  qed
next
  show "cmd \<notin> set (map ch ''><^v!0+-:/?~$.,|_@'') \<and> cmd \<noteq> ch CHR 0x5C \<longrightarrow>
          step p program s = Next (move s)"
    using assms by (simp add: step_def execute_no_instruction)
qed

theorem step_advances_one_cell_witness:
  "fetch [map ch ''v''] 0 0 = ch CHR ''v''
   \<and> step ascii_int [map ch ''v''] (initial []) =
       Next \<lparr>ip_x = 0, ip_y = 1, ip_d = DOWN, stk = [], stdin = [], stdout = []\<rparr>
   \<and> fetch [map ch ''v''] 0 1 = ch CHR '' ''
   \<and> ch CHR '' '' \<notin> set (map ch ''><^v!0+-:/?~$.,|_@'') \<and> ch CHR '' '' \<noteq> ch CHR 0x5C
   \<and> step ascii_int [map ch ''v'']
         \<lparr>ip_x = 0, ip_y = 1, ip_d = DOWN, stk = [], stdin = [], stdout = []\<rparr> =
       Next \<lparr>ip_x = 0, ip_y = 2, ip_d = DOWN, stk = [], stdin = [], stdout = []\<rparr>"
  using step_advances_one_cell
    [where p = ascii_int and program = "[map ch ''v'']" and s = "initial []"
      and cmd = "ch CHR ''v''"]
    step_advances_one_cell
    [where p = ascii_int and program = "[map ch ''v'']" and cmd = "ch CHR '' ''"
      and s = "\<lparr>ip_x = 0, ip_y = 1, ip_d = DOWN, stk = [], stdin = [], stdout = []\<rparr>"]
  by (simp add: step_def execute_def move_def fetch_def py_index_def initial_def Stack_init_def)

section \<open>Properties of the input and output instructions\<close>

text \<open>
  C8, as the specification states it, fails: on the input line \<^verbatim>\<open>ab\<close> the instruction
  \<^verbatim>\<open>?\<close> does not push the code point 97 of \<^verbatim>\<open>a\<close>; \<open>ord\<close> raises \<open>TypeError\<close> on the
  two-character string and nothing is pushed.
\<close>

theorem read_character_long_line_counterexample:
  "execute ascii_int (ch CHR ''?'') (initial [map ch ''ab'']) = Uncaught TypeError (initial [])
   \<and> execute ascii_int (ch CHR ''?'') (initial [map ch ''ab'']) \<noteq>
       Next ((initial [])\<lparr>stk := push 97 (stk (initial []))\<rparr>)"
  by (simp add: execute_def input_def ord_def initial_def)

text \<open>
  C8, amended. On an input line of exactly one character \<^verbatim>\<open>?\<close> pushes the code point
  of that character. On a line of any other length, empty or longer, the line is consumed,
  \<open>TypeError\<close> is raised and nothing is pushed.
\<close>

theorem read_character:
  "execute p (ch CHR ''?'') (s\<lparr>stdin := [c] # lines\<rparr>) =
     Next (s\<lparr>stdin := lines, stk := push (int c) (stk s)\<rparr>)
   \<and> (length line \<noteq> 1 \<longrightarrow>
        execute p (ch CHR ''?'') (s\<lparr>stdin := line # lines\<rparr>) =
          Uncaught TypeError (s\<lparr>stdin := lines\<rparr>))"
  by (auto simp: execute_def input_def ord_def split: list.splits)

theorem read_character_witness:
  "length (map ch ''ab'') \<noteq> 1
   \<and> execute ascii_int (ch CHR ''?'') ((initial [])\<lparr>stdin := [map ch ''ab'']\<rparr>) =
       Uncaught TypeError (initial [])
   \<and> execute ascii_int (ch CHR ''?'') ((initial [])\<lparr>stdin := [[ch CHR ''a'']]\<rparr>) =
       Next ((initial [])\<lparr>stk := [97]\<rparr>)"
  using read_character [where p = ascii_int and s = "initial []" and c = "ch CHR ''a''"
      and lines = "[]" and line = "map ch ''ab''"]
  by (simp add: initial_def push_def Stack_init_def)

text \<open>
  C9. When \<^verbatim>\<open>~\<close> is the instruction under the pointer and the line it reads is not an
  integer literal, the pass raises \<open>ValueError\<close> at the read: the stack is as it was,
  no later pass runs, and the process ends with status 1.
\<close>

theorem malformed_integer_is_fatal:
  assumes "fetch program (ip_x s) (ip_y s) = ch CHR ''~''"
    and "stdin s = line # lines"
    and "parse_int line = None"
  shows "step parse_int program s = Uncaught ValueError (s\<lparr>stdin := lines\<rparr>)
         \<and> stk (s\<lparr>stdin := lines\<rparr>) = stk s
         \<and> run parse_int program (Suc n) s = Uncaught ValueError (s\<lparr>stdin := lines\<rparr>)
         \<and> exit_status (run parse_int program (Suc n) s) = Some 1"
  using assms by (simp add: step_def execute_def input_def exit_status_def)

theorem malformed_integer_is_fatal_witness:
  "fetch [map ch ''~.@''] 0 0 = ch CHR ''~''
   \<and> ascii_int (map ch ''x12'') = None
   \<and> run ascii_int [map ch ''~.@''] (Suc 5) (initial [map ch ''x12'']) =
       Uncaught ValueError (initial [])
   \<and> exit_status (run ascii_int [map ch ''~.@''] (Suc 5) (initial [map ch ''x12''])) = Some 1"
  using malformed_integer_is_fatal
    [where program = "[map ch ''~.@'']" and s = "initial [map ch ''x12'']"
      and line = "map ch ''x12''" and lines = "[]" and parse_int = ascii_int and n = 5]
  by (simp add: fetch_def py_index_def initial_def ascii_int_def unsigned_def exit_status_def)

text \<open>
  C10. When \<^verbatim>\<open>,\<close> is the instruction under the pointer and the value it pops is
  negative or above \<open>0x10FFFF\<close>, \<open>chr\<close> raises: the pass ends on an uncaught exception
  and the process ends with status 1, although \<open>pop\<close> itself has a result on every
  stack. A pass on \<^verbatim>\<open>,\<close> falls through only if the popped value is a code point.
\<close>

theorem character_output_needs_code_point:
  assumes "fetch program (ip_x s) (ip_y s) = ch CHR '',''"
  shows "(fst (pop (stk s)) < 0 \<or> 0x10FFFF < fst (pop (stk s)) \<longrightarrow>
            step p program s = Uncaught ValueError (s\<lparr>stk := snd (pop (stk s))\<rparr>)
            \<and> exit_status (run p program (Suc n) s) = Some 1)
         \<and> (\<forall>s'. step p program s = Next s' \<longrightarrow>
              0 \<le> fst (pop (stk s)) \<and> fst (pop (stk s)) \<le> 0x10FFFF)"
  using assms
  by (auto simp: step_def execute_def chr_def exit_status_def split: prod.splits if_splits)

theorem character_output_needs_code_point_witness:
  "fetch [map ch '',@''] 0 0 = ch CHR '',''
   \<and> fst (pop [- 1]) < 0
   \<and> step ascii_int [map ch '',@''] ((initial [])\<lparr>stk := [- 1]\<rparr>) =
       Uncaught ValueError (initial [])
   \<and> exit_status (run ascii_int [map ch '',@''] (Suc 3) ((initial [])\<lparr>stk := [- 1]\<rparr>)) = Some 1
   \<and> step ascii_int [map ch '',@''] ((initial [])\<lparr>stk := [65]\<rparr>) =
       Next \<lparr>ip_x = 1, ip_y = 0, ip_d = RIGHT, stk = [], stdin = [], stdout = [Character 65]\<rparr>"
  using character_output_needs_code_point
    [where program = "[map ch '',@'']" and s = "(initial [])\<lparr>stk := [- 1]\<rparr>"
      and p = ascii_int and n = 3]
    character_output_needs_code_point
    [where program = "[map ch '',@'']" and s = "(initial [])\<lparr>stk := [65]\<rparr>"
      and p = ascii_int and n = 3]
  by (simp add: fetch_def py_index_def initial_def pop_def nonempty_def Stack_init_def
      step_def execute_def chr_def move_def)

end
